theory Spec2Isabelle
  imports Main "HOL-Library.Word" "HOL-Library.Log_Nat"
begin

section \<open>The JavaScript values the command-line tool computes with\<close>

text \<open>
  \<^verbatim>\<open>src/cli.ts\<close> is a Node script: it merges command-line arguments with a configuration
  file, lists the migrations directory, keeps the entries that look like versions, and
  drives the \<^verbatim>\<open>underbase\<close> migrator (\<^verbatim>\<open>config\<close>, \<^verbatim>\<open>add\<close>, \<^verbatim>\<open>getVersion\<close>, \<^verbatim>\<open>migrateTo\<close>),
  with an optional \<^verbatim>\<open>mongodump\<close> backup in between. The migrator, the file system, the
  clock and the child process are outside the script; the model records every call the
  script makes to them as an event, in the order in which the calls happen.

  The script's own arithmetic is done by three built-ins: \<^verbatim>\<open>parseFloat\<close>, \<^verbatim>\<open>toFixed(1)\<close> and the
  conversion of a number to a string. They are modelled after ECMAScript: a string is a
  list of UTF-16 code units and a number is NaN, an infinity, or the exact rational value
  of a binary64 double (the sign of zero is dropped: no operation of the script tells
  \<^verbatim>\<open>-0\<close> from \<^verbatim>\<open>0\<close>).
\<close>

subsection \<open>Strings\<close>

type_synonym code_unit = "16 word"
type_synonym jsstring = "code_unit list"

text \<open>A string literal of the source, as code units.\<close>

definition str :: "string \<Rightarrow> jsstring" where
  "str s = map (\<lambda>c. of_char c) s"

text \<open>The regular-expression class \<^verbatim>\<open>\d\<close> is \<^verbatim>\<open>[0-9]\<close>.\<close>

definition is_digit :: "code_unit \<Rightarrow> bool" where
  "is_digit c = (0x30 \<le> c \<and> c \<le> 0x39)"

definition digit_val :: "code_unit \<Rightarrow> nat" where
  "digit_val c = unat c - 48"

definition digit_char :: "nat \<Rightarrow> code_unit" where
  "digit_char d = of_nat (48 + d)"

text \<open>The decimal digits of a natural number, most significant first (\<^verbatim>\<open>0\<close> is \<^verbatim>\<open>"0"\<close>).\<close>

fun digits :: "nat \<Rightarrow> jsstring" where
  "digits n = (if n < 10 then [digit_char n] else digits (n div 10) @ [digit_char (n mod 10)])"

declare digits.simps [simp del]

definition digits_val :: "jsstring \<Rightarrow> nat" where
  "digits_val ds = foldl (\<lambda>n c. 10 * n + digit_val c) 0 ds"

text \<open>
  Without the \<^verbatim>\<open>s\<close> flag a dot of a regular expression matches every code unit except the
  four line terminators.
\<close>

definition line_terminator :: "code_unit \<Rightarrow> bool" where
  "line_terminator c = (c = 0x0A \<or> c = 0x0D \<or> c = 0x2028 \<or> c = 0x2029)"

text \<open>White space and line terminators, which \<^verbatim>\<open>parseFloat\<close> skips at the start.\<close>

definition is_space :: "code_unit \<Rightarrow> bool" where
  "is_space c =
     (c = 0x09 \<or> c = 0x0A \<or> c = 0x0B \<or> c = 0x0C \<or> c = 0x0D \<or> c = 0x20 \<or> c = 0xA0
      \<or> c = 0x1680 \<or> (0x2000 \<le> c \<and> c \<le> 0x200A) \<or> c = 0x2028 \<or> c = 0x2029
      \<or> c = 0x202F \<or> c = 0x205F \<or> c = 0x3000 \<or> c = 0xFEFF)"

subsection \<open>Numbers\<close>

datatype number = NaN | PosInf | NegInf | Fin rat

text \<open>
  \<open>flog b x\<close> is the integer \<open>k\<close> with \<open>b powi k \<le> x < b powi (k + 1)\<close>, for positive \<open>x\<close>:
  from one on it is the number of digits of the integer part, less one; below one it is
  read off the reciprocal. (\<open>floorlog b n\<close> is the number of digits of \<open>n\<close> to the base \<open>b\<close>.)
\<close>

definition flog :: "nat \<Rightarrow> rat \<Rightarrow> int" where
  "flog b x =
     (if 1 \<le> x then int (floorlog b (nat \<lfloor>x\<rfloor>)) - 1
      else - int (floorlog b (nat (\<lceil>1 / x\<rceil> - 1))))"

definition round_even :: "rat \<Rightarrow> int" where
  "round_even x =
     (let f = \<lfloor>x\<rfloor>; d = x - of_int f
      in if d < 1 / 2 then f else if 1 / 2 < d then f + 1
         else if even f then f else f + 1)"

text \<open>
  The Number value of a real: the nearest double, ties to the even significand. The
  significand has 53 bits, the least exponent is \<open>-1022\<close> (below it the spacing stays
  \<open>2 powi -1074\<close>), and what rounds to \<open>2 powi 1024\<close> or more is an infinity.
\<close>

definition to_double :: "rat \<Rightarrow> number" where
  "to_double x =
     (if x = 0 then Fin 0
      else
        let a = \<bar>x\<bar>;
            k = max (flog 2 a) (- 1022);
            u = 2 powi (k - 52);
            y = of_int (round_even (a / u)) * u
        in if 2 powi 1024 \<le> y then (if x < 0 then NegInf else PosInf)
           else Fin (if x < 0 then - y else y))"

subsection \<open>\<^verbatim>\<open>parseFloat\<close>\<close>

text \<open>
  \<^verbatim>\<open>parseFloat\<close> skips leading white space and reads the longest prefix that is a
  \<^verbatim>\<open>StrDecimalLiteral\<close>: an optional sign, then \<^verbatim>\<open>Infinity\<close>, or digits with an optional
  fraction and an optional exponent, or a fraction that starts with the dot. What follows
  the prefix is ignored; with no such prefix the result is NaN. An exponent counts only
  when at least one digit follows the \<^verbatim>\<open>e\<close> and its optional sign.
\<close>

definition exponent_part :: "jsstring \<Rightarrow> int" where
  "exponent_part r =
     (case r of
        [] \<Rightarrow> 0
      | c # r1 \<Rightarrow>
          if c = 0x65 \<or> c = 0x45 then
            (case r1 of
               [] \<Rightarrow> 0
             | d # r2 \<Rightarrow>
                 if d = 0x2D then - int (digits_val (takeWhile is_digit r2))
                 else if d = 0x2B then int (digits_val (takeWhile is_digit r2))
                 else int (digits_val (takeWhile is_digit r1)))
          else 0)"

definition parseFloat_str :: "jsstring \<Rightarrow> number" where
  "parseFloat_str s =
     (let t = dropWhile is_space s;
          neg = (take 1 t = str ''-'');
          u = (if take 1 t = str ''-'' \<or> take 1 t = str ''+'' then drop 1 t else t)
      in if take 8 u = str ''Infinity'' then (if neg then NegInf else PosInf)
         else
           let ip = takeWhile is_digit u;
               r1 = dropWhile is_digit u;
               fp = (if take 1 r1 = str ''.'' then takeWhile is_digit (drop 1 r1) else []);
               r2 = (if take 1 r1 = str ''.'' then dropWhile is_digit (drop 1 r1) else r1)
           in if ip = [] \<and> fp = [] then NaN
              else
                let mv = of_nat (digits_val (ip @ fp))
                           * 10 powi (exponent_part r2 - int (length fp))
                in to_double (if neg then - mv else mv))"

subsection \<open>Number to string\<close>

text \<open>
  \<^verbatim>\<open>Number::toString\<close> prints the shortest decimal \<open>s * 10 powi m\<close> that reads back as the
  same double, the closest one if several of that length do. For \<open>k\<close> digits the only
  candidates are the two \<open>k\<close>-digit decimals around the value; 17 digits always suffice
  for a double.
\<close>

definition dec_value :: "int \<times> int \<Rightarrow> rat" where
  "dec_value c = of_int (fst c) * 10 powi snd c"

definition candidates :: "rat \<Rightarrow> nat \<Rightarrow> (int \<times> int) list" where
  "candidates x k =
     (let m = flog 10 x + 1 - int k; s = \<lfloor>x / 10 powi m\<rfloor> in [(s, m), (s + 1, m)])"

definition reads_back :: "rat \<Rightarrow> int \<times> int \<Rightarrow> bool" where
  "reads_back x c = (to_double (dec_value c) = Fin x)"

fun closest :: "rat \<Rightarrow> (int \<times> int) list \<Rightarrow> int \<times> int" where
  "closest x [] = (\<lfloor>x\<rfloor>, 0)"
| "closest x [c] = c"
| "closest x (c # d # cs) =
     (if \<bar>dec_value c - x\<bar> < \<bar>dec_value d - x\<bar> then c
      else if \<bar>dec_value d - x\<bar> < \<bar>dec_value c - x\<bar> then d
      else if even (fst c) then c else d)"

definition shortest :: "rat \<Rightarrow> int \<times> int" where
  "shortest x =
     (case List.find (\<lambda>k. filter (reads_back x) (candidates x k) \<noteq> []) [1 ..< 18] of
        Some k \<Rightarrow> closest x (filter (reads_back x) (candidates x k))
      | None \<Rightarrow> hd (candidates x 17))"

text \<open>
  The layout of the digits: plain digits up to \<open>10 ^ 21\<close>, a leading \<^verbatim>\<open>0.\<close> down to
  \<open>10 powi -6\<close>, the exponent form beyond. A candidate that was rounded up to a power of
  ten is first brought back to the digit \<^verbatim>\<open>1\<close>.
\<close>

definition positive_to_string :: "rat \<Rightarrow> jsstring" where
  "positive_to_string x =
     (let c = shortest x;
          c' = (if 10 dvd fst c \<and> 10 \<le> fst c then (fst c div 10, snd c + 1) else c);
          ds = digits (nat (fst c'));
          k = int (length ds);
          n = snd c' + k
      in if k \<le> n \<and> n \<le> 21 then ds @ replicate (nat (n - k)) 0x30
         else if 0 < n \<and> n \<le> 21 then take (nat n) ds @ str ''.'' @ drop (nat n) ds
         else if - 6 < n \<and> n \<le> 0 then str ''0.'' @ replicate (nat (- n)) 0x30 @ ds
         else
           let ex = (if n - 1 < 0 then str ''-'' else str ''+'') @ digits (nat \<bar>n - 1\<bar>)
           in if k = 1 then ds @ str ''e'' @ ex
              else take 1 ds @ str ''.'' @ drop 1 ds @ str ''e'' @ ex)"

definition number_to_string :: "number \<Rightarrow> jsstring" where
  "number_to_string x =
     (case x of
        NaN \<Rightarrow> str ''NaN''
      | PosInf \<Rightarrow> str ''Infinity''
      | NegInf \<Rightarrow> str ''-Infinity''
      | Fin q \<Rightarrow>
          if q = 0 then str ''0''
          else if q < 0 then str ''-'' @ positive_to_string (- q)
          else positive_to_string q)"

subsection \<open>\<^verbatim>\<open>toFixed(1)\<close>\<close>

text \<open>
  \<^verbatim>\<open>Number.prototype.toFixed\<close> with one fraction digit: a value that is not finite, or is
  \<open>10 ^ 21\<close> or more in magnitude, is printed as \<^verbatim>\<open>Number::toString\<close> prints it; otherwise
  \<open>n\<close> is the integer nearest to ten times the magnitude (the larger of two), and the
  result is the digits of \<open>n\<close> with a dot before the last one, after the sign.
\<close>

definition toFixed1 :: "number \<Rightarrow> jsstring" where
  "toFixed1 x =
     (case x of
        Fin q \<Rightarrow>
          let s = (if q < 0 then str ''-'' else []); a = \<bar>q\<bar>
          in if 10 ^ 21 \<le> a then s @ number_to_string (Fin a)
             else
               let n = nat \<lfloor>a * 10 + 1 / 2\<rfloor>
               in s @ digits (n div 10) @ str ''.'' @ digits (n mod 10)
      | _ \<Rightarrow> number_to_string x)"

subsection \<open>Values, truthiness, strict equality\<close>

datatype jsval = Undefined | Null | JBool bool | JNum number | JStr jsstring

definition truthy :: "jsval \<Rightarrow> bool" where
  "truthy v =
     (case v of
        Undefined \<Rightarrow> False
      | Null \<Rightarrow> False
      | JBool b \<Rightarrow> b
      | JNum n \<Rightarrow> n \<noteq> NaN \<and> n \<noteq> Fin 0
      | JStr s \<Rightarrow> s \<noteq> [])"

text \<open>\<^verbatim>\<open>a || b\<close> is \<^verbatim>\<open>a\<close> when \<^verbatim>\<open>a\<close> is truthy and \<^verbatim>\<open>b\<close> otherwise.\<close>

definition js_or :: "jsval \<Rightarrow> jsval \<Rightarrow> jsval" where
  "js_or a b = (if truthy a then a else b)"

text \<open>Strict equality of numbers: NaN equals nothing, itself included.\<close>

definition num_eq :: "number \<Rightarrow> number \<Rightarrow> bool" where
  "num_eq x y = (x \<noteq> NaN \<and> x = y)"

definition strict_eq :: "jsval \<Rightarrow> jsval \<Rightarrow> bool" where
  "strict_eq a b = (case (a, b) of (JNum x, JNum y) \<Rightarrow> num_eq x y | _ \<Rightarrow> a = b)"

definition js_toString :: "jsval \<Rightarrow> jsstring" where
  "js_toString v =
     (case v of
        Undefined \<Rightarrow> str ''undefined''
      | Null \<Rightarrow> str ''null''
      | JBool b \<Rightarrow> (if b then str ''true'' else str ''false'')
      | JNum n \<Rightarrow> number_to_string n
      | JStr s \<Rightarrow> s)"

text \<open>\<^verbatim>\<open>parseFloat\<close> converts its argument to a string first.\<close>

definition parseFloat :: "jsval \<Rightarrow> number" where
  "parseFloat v = parseFloat_str (js_toString v)"

text \<open>
  \<^verbatim>\<open>Array.prototype.indexOf\<close> on an array of numbers: the first index whose element is
  strictly equal to the value, or \<open>-1\<close>.
\<close>

fun indexOf :: "number list \<Rightarrow> number \<Rightarrow> int" where
  "indexOf [] x = - 1"
| "indexOf (y # ys) x =
     (if num_eq y x then 0 else if indexOf ys x < 0 then - 1 else indexOf ys x + 1)"

text \<open>\<^verbatim>\<open>Array.prototype.join\<close>: \<^verbatim>\<open>undefined\<close> and \<^verbatim>\<open>null\<close> elements print as nothing.\<close>

definition join_elem :: "jsval \<Rightarrow> jsstring" where
  "join_elem v = (if v = Undefined \<or> v = Null then [] else js_toString v)"

fun join :: "jsstring \<Rightarrow> jsval list \<Rightarrow> jsstring" where
  "join sep [] = []"
| "join sep [v] = join_elem v"
| "join sep (v # w # vs) = join_elem v @ sep @ join sep (w # vs)"

section \<open>The command-line tool\<close>

subsection \<open>Arguments, configuration file, configuration\<close>

text \<open>
  \<^verbatim>\<open>argv\<close> is what yargs hands over: \<open>argv_command\<close> is \<^verbatim>\<open>argv._[0]\<close>, the other fields
  are the options the script reads. yargs turns an argument that looks like a number
  into a number, so \<^verbatim>\<open>argv.migration\<close> is a number for \<^verbatim>\<open>migrate 1.0\<close> and a string
  for \<^verbatim>\<open>migrate 1.0abc\<close>; an option that was not given is \<^verbatim>\<open>undefined\<close>.
\<close>

record argv =
  argv_command :: jsval
  argv_migration :: jsval
  argv_rerun :: jsval
  argv_logs :: jsval
  argv_backup :: jsval
  argv_config :: jsval
  argv_chdir :: jsval
  argv_collectionName :: jsval
  argv_db :: jsval
  argv_backupsDir :: jsval
  argv_migrationsDir :: jsval
  argv_mongodumpBinary :: jsval

text \<open>The object a configuration file exports (\<^verbatim>\<open>IConfigFile\<close>); \<^verbatim>\<open>{}\<close> when there is none.\<close>

record configFile =
  file_collectionName :: jsval
  file_backup :: jsval
  file_backupsDir :: jsval
  file_migrationsDir :: jsval
  file_db :: jsval
  file_logs :: jsval
  file_logIfLatest :: jsval
  file_chdir :: jsval
  file_mongodumpBinary :: jsval

definition empty_configFile :: configFile where
  "empty_configFile =
     \<lparr>file_collectionName = Undefined, file_backup = Undefined, file_backupsDir = Undefined,
      file_migrationsDir = Undefined, file_db = Undefined, file_logs = Undefined,
      file_logIfLatest = Undefined, file_chdir = Undefined, file_mongodumpBinary = Undefined\<rparr>"

text \<open>The \<^verbatim>\<open>config\<close> object passed to \<^verbatim>\<open>migrator.config\<close> (its \<^verbatim>\<open>logger\<close> is the script's own).\<close>

record config =
  logs :: jsval
  logIfLatest :: jsval
  collectionName :: jsval
  db :: jsval
  backup :: jsval
  backupsDir :: jsstring
  migrationsDir :: jsstring
  mongodumpBinary :: jsval

text \<open>
  The answers of the outside world to the calls the script makes: the working directory
  of the process, the module a \<^verbatim>\<open>require\<close> of the configuration path loads,
  \<^verbatim>\<open>path.resolve(path.join(a, b))\<close>, the two \<^verbatim>\<open>fs.existsSync\<close> tests at the time they are
  made, the listing \<^verbatim>\<open>fs.readdirSync\<close> returns, the version \<^verbatim>\<open>migrator.getVersion\<close>
  resolves to, \<^verbatim>\<open>Date.now()\<close>, and whether \<^verbatim>\<open>exec\<close> reports an error for the dump.
  The calls are assumed to return: a module that fails to load, a rejected promise of
  the migrator or an exception of the file system is not part of the model.
\<close>

record env =
  cwd :: jsval
  require_config :: "jsstring \<Rightarrow> configFile"
  path_resolve_join :: "jsval \<Rightarrow> jsval \<Rightarrow> jsstring"
  exists_migrationsDir :: bool
  exists_backupsDir :: bool
  readdirSync :: "jsstring list"
  getVersion :: number
  date_now :: nat
  exec_error :: bool

text \<open>Lines 91 to 100: the configuration file and the working directory.\<close>

definition configFile_of :: "env \<Rightarrow> argv \<Rightarrow> configFile" where
  "configFile_of w a =
     (if truthy (argv_config a)
      then require_config w (path_resolve_join w (js_or (argv_chdir a) (cwd w)) (argv_config a))
      else empty_configFile)"

definition workingDirectory :: "env \<Rightarrow> argv \<Rightarrow> jsval" where
  "workingDirectory w a =
     (if truthy (file_chdir (configFile_of w a)) then file_chdir (configFile_of w a)
      else js_or (argv_chdir a) (cwd w))"

text \<open>Lines 102 to 125: the merged configuration.\<close>

definition config_of :: "env \<Rightarrow> argv \<Rightarrow> config" where
  "config_of w a =
     (let f = configFile_of w a; wd = workingDirectory w a
      in \<lparr>logs = js_or (js_or (argv_logs a) (file_logs f)) (JBool True),
          logIfLatest = JBool True,
          collectionName =
            js_or (js_or (argv_collectionName a) (file_collectionName f)) (JStr (str ''migrations'')),
          db = js_or (js_or (argv_db a) (file_db f)) Null,
          backup = js_or (js_or (argv_backup a) (file_backup f)) (JBool False),
          backupsDir =
            path_resolve_join w wd
              (js_or (js_or (argv_backupsDir a) (file_backupsDir f))
                 (JStr (str ''./migrations/backups''))),
          migrationsDir =
            path_resolve_join w wd
              (js_or (js_or (argv_migrationsDir a) (file_migrationsDir f))
                 (JStr (str ''./migrations''))),
          mongodumpBinary =
            js_or (js_or (argv_mongodumpBinary a) (file_mongodumpBinary f))
              (JStr (str ''mongodump''))\<rparr>)"

subsection \<open>Events and the microtask queue\<close>

text \<open>
  What the script does to the outside world, in order: a line on the console through
  \<^verbatim>\<open>logger\<close> (level and message), \<^verbatim>\<open>console.log\<close> of a string, \<^verbatim>\<open>console.error\<close> of the
  dump's error, \<^verbatim>\<open>fs.mkdirpSync\<close>, the four calls of the migrator, the \<^verbatim>\<open>require\<close> of a
  migration module (by path; \<open>Add\<close> carries the path of the module whose export is
  added), \<^verbatim>\<open>exec\<close> of the dump command, and \<^verbatim>\<open>process.exit()\<close>.
\<close>

datatype event =
    Log jsstring jsstring
  | ConsoleLog jsstring
  | ConsoleError
  | Mkdirp jsstring
  | Config config
  | Require jsstring
  | Add jsstring
  | GetVersion
  | Exec jsstring
  | MigrateTo jsval
  | Exit

text \<open>
  An \<^verbatim>\<open>async\<close> function runs synchronously up to its first \<^verbatim>\<open>await\<close>; there it is
  suspended and its continuation becomes a microtask. The callback of \<^verbatim>\<open>versions.forEach\<close>
  has two \<^verbatim>\<open>await\<close>s, so a suspended callback is either about to call \<^verbatim>\<open>migrator.add\<close>
  (it awaited the required module) or about to return (it awaited \<^verbatim>\<open>migrator.add\<close>).
\<close>

datatype task = Resume_callback jsstring | Finish_callback jsstring

record state =
  trace :: "event list"
  queue :: "task list"
  exited :: bool

definition emit :: "event \<Rightarrow> state \<Rightarrow> state" where
  "emit ev st = st\<lparr>trace := trace st @ [ev]\<rparr>"

definition enqueue :: "task \<Rightarrow> state \<Rightarrow> state" where
  "enqueue t st = st\<lparr>queue := queue st @ [t]\<rparr>"

fun run_task :: "task \<Rightarrow> state \<Rightarrow> state" where
  "run_task (Resume_callback p) st = enqueue (Finish_callback p) (emit (Add p) st)"
| "run_task (Finish_callback p) st = st"

fun weight :: "task \<Rightarrow> nat" where
  "weight (Resume_callback p) = 2"
| "weight (Finish_callback p) = 1"

text \<open>
  When the main function awaits a promise of the outside world, the microtasks queued
  so far run, first in first out, before the main function goes on.
\<close>

function await :: "state \<Rightarrow> state" where
  "await st =
     (case queue st of
        [] \<Rightarrow> st
      | t # q \<Rightarrow> await (run_task t (st\<lparr>queue := q\<rparr>)))"
  by pat_completeness auto
termination
proof (relation "measure (\<lambda>st. sum_list (map weight (queue st)))")
  show "wf (measure (\<lambda>st. sum_list (map weight (queue st))))"
    by simp
next
  fix st :: state and t q
  assume "queue st = t # q"
  then show "(run_task t (st\<lparr>queue := q\<rparr>), st) \<in> measure (\<lambda>st. sum_list (map weight (queue st)))"
    by (cases t) (simp_all add: enqueue_def emit_def)
qed

declare await.simps [simp del]

subsection \<open>The script\<close>

definition logger :: "jsstring \<Rightarrow> jsstring \<Rightarrow> state \<Rightarrow> state" where
  "logger level msg st = emit (Log level msg) st"

text \<open>\<^verbatim>\<open>process.exit()\<close> ends the process: nothing of the script runs after it.\<close>

definition process_exit :: "state \<Rightarrow> state" where
  "process_exit st = (emit Exit st)\<lparr>exited := True\<rparr>"

text \<open>
  Lines 143 and 144: the filter \<^verbatim>\<open>/^[\d].[\d]$/\<close> on the directory listing. The pattern is
  anchored at both ends, so it matches exactly the names of three code units with a
  digit, any code unit a dot matches, and a digit.
\<close>

fun version_regex :: "jsstring \<Rightarrow> bool" where
  "version_regex [a, b, c] = (is_digit a \<and> \<not> line_terminator b \<and> is_digit c)"
| "version_regex _ = False"

definition versions_listed :: "jsstring list \<Rightarrow> jsstring list" where
  "versions_listed listing = filter version_regex listing"

text \<open>Line 148: \<^verbatim>\<open>versionsArray\<close>; line 155: \<^verbatim>\<open>versions\<close> after the normalisation.\<close>

definition versionsArray :: "jsstring list \<Rightarrow> number list" where
  "versionsArray listing = map parseFloat_str (versions_listed listing)"

definition versions :: "jsstring list \<Rightarrow> jsstring list" where
  "versions listing = map toFixed1 (versionsArray listing)"

text \<open>Lines 36 to 65: \<^verbatim>\<open>createBackup\<close>.\<close>

definition backupFile :: "number \<Rightarrow> nat \<Rightarrow> jsstring" where
  "backupFile version now =
     join (str ''_'')
       [JStr (toFixed1 version), JStr (number_to_string (Fin (of_nat now)) @ str ''.gz'')]"

definition backup_cmd :: "config \<Rightarrow> jsstring \<Rightarrow> jsstring" where
  "backup_cmd cfg file =
     join (str '' '')
       [mongodumpBinary cfg,
        JStr (str ''--host localhost:27017''),
        JStr (str ''--archive='' @ backupsDir cfg @ str ''/'' @ file),
        JStr (str ''--gzip --db underbase_test'')]"

definition createBackup :: "env \<Rightarrow> config \<Rightarrow> number \<Rightarrow> state \<Rightarrow> state" where
  "createBackup w cfg version st =
     (let st1 = logger (str ''info'') (str ''Creating backup...'') st;
          file = backupFile version (date_now w);
          st2 = await (emit (Exec (backup_cmd cfg file)) st1)
      in if exec_error w
         then process_exit
                (emit ConsoleError
                   (logger (str ''error'')
                      (str ''An error occured while creating backup... Cancelling.'') st2))
         else logger (str ''success'') (str ''Backup created : '' @ file) st2)"

text \<open>
  Lines 159 to 163: the callback of \<^verbatim>\<open>versions.forEach\<close> requires the module at once and is
  suspended at its first \<^verbatim>\<open>await\<close>; \<^verbatim>\<open>forEach\<close> does not wait for what the callback returns.
\<close>

definition callback :: "config \<Rightarrow> jsstring \<Rightarrow> state \<Rightarrow> state" where
  "callback cfg v st =
     (let p = migrationsDir cfg @ str ''/'' @ v
      in enqueue (Resume_callback p) (emit (Require p) st))"

definition forEach :: "jsstring list \<Rightarrow> (jsstring \<Rightarrow> state \<Rightarrow> state) \<Rightarrow> state \<Rightarrow> state" where
  "forEach vs f st = foldl (\<lambda>s v. f v s) st vs"

text \<open>Lines 171 to 175: the argument of \<^verbatim>\<open>migrator.migrateTo\<close>.\<close>

definition migrateTo_arg :: "argv \<Rightarrow> jsval" where
  "migrateTo_arg a =
     (if truthy (argv_rerun a) then JStr (js_toString (argv_migration a) @ str '',rerun'')
      else argv_migration a)"

text \<open>Lines 147 to 178: the \<^verbatim>\<open>migrate\<close> command.\<close>

definition unknown_version :: "env \<Rightarrow> argv \<Rightarrow> bool" where
  "unknown_version w a =
     (\<not> strict_eq (argv_migration a) (JNum (Fin 0))
      \<and> indexOf (versionsArray (readdirSync w)) (parseFloat (argv_migration a)) < 0)"

definition migrate_command :: "env \<Rightarrow> argv \<Rightarrow> config \<Rightarrow> state \<Rightarrow> state" where
  "migrate_command w a cfg st =
     (if unknown_version w a
      then process_exit (logger (str ''error'') (str ''This version does not exists.'') st)
      else
        let st1 = await (emit (Config cfg) st);
            st2 = forEach (versions (readdirSync w)) (callback cfg) st1;
            st3 = (if truthy (backup cfg)
                   then createBackup w cfg (getVersion w) (await (emit GetVersion st2))
                   else st2)
        in if exited st3 then st3 else await (emit (MigrateTo (migrateTo_arg a)) st3))"

text \<open>Lines 179 to 185 and 186 to 194: the \<^verbatim>\<open>list\<close> and \<^verbatim>\<open>status\<close> commands.\<close>

definition list_command :: "env \<Rightarrow> state \<Rightarrow> state" where
  "list_command w st =
     forEach (versions_listed (readdirSync w)) (\<lambda>v. emit (ConsoleLog v))
       (logger (str ''info'') (str ''Versions list based on folders'') st)"

definition status_command :: "env \<Rightarrow> config \<Rightarrow> state \<Rightarrow> state" where
  "status_command w cfg st =
     logger (str ''info'') (str ''Current version is '' @ number_to_string (getVersion w))
       (await (emit GetVersion (await (emit (Config cfg) st))))"

text \<open>Lines 133 to 141: the two directories are created when they are missing.\<close>

definition ensure_directories :: "env \<Rightarrow> config \<Rightarrow> state \<Rightarrow> state" where
  "ensure_directories w cfg st =
     (let st1 = (if \<not> exists_migrationsDir w
                 then logger (str ''info'') (str ''Created migration directory.'')
                        (emit (Mkdirp (migrationsDir cfg)) st)
                 else st)
      in if \<not> exists_backupsDir w
         then logger (str ''info'') (str ''Created backup directory.'')
                (emit (Mkdirp (backupsDir cfg)) st1)
         else st1)"

definition initial :: state where
  "initial = \<lparr>trace = [], queue = [], exited = False\<rparr>"

text \<open>Lines 127 to 202: the main function; the result is everything the run did.\<close>

definition main :: "env \<Rightarrow> argv \<Rightarrow> event list" where
  "main w a =
     trace
       (let cfg = config_of w a
        in if \<not> truthy (argv_command a)
           then process_exit
                  (logger (str ''error'')
                     (str ''Invalid command. Type --help to show available commands.'') initial)
           else
             let st2 = ensure_directories w cfg initial;
                 st3 = (if argv_command a = JStr (str ''migrate'') then migrate_command w a cfg st2
                        else if argv_command a = JStr (str ''list'') then list_command w st2
                        else if argv_command a = JStr (str ''status'') then status_command w cfg st2
                        else logger (str ''error'')
                               (str ''Invalid command. Type --help to show available commands.'')
                               st2)
             in if exited st3 then st3 else process_exit st3)"

section \<open>Vocabulary of the properties\<close>

text \<open>The migration modules of a run, in the order of \<^verbatim>\<open>versions\<close>.\<close>

definition module_paths :: "env \<Rightarrow> argv \<Rightarrow> jsstring list" where
  "module_paths w a =
     map (\<lambda>v. migrationsDir (config_of w a) @ str ''/'' @ v) (versions (readdirSync w))"

text \<open>What the two directory tests leave on the trace.\<close>

definition setup_events :: "env \<Rightarrow> config \<Rightarrow> event list" where
  "setup_events w cfg = trace (ensure_directories w cfg initial)"

text \<open>The modules whose callbacks wait in a queue for their call of \<^verbatim>\<open>migrator.add\<close>.\<close>

fun pending :: "task list \<Rightarrow> jsstring list" where
  "pending [] = []"
| "pending (Resume_callback p # q) = p # pending q"
| "pending (Finish_callback p # q) = pending q"


fun is_Exec :: "event \<Rightarrow> bool" where
  "is_Exec (Exec c) = True"
| "is_Exec _ = False"

fun is_Add :: "event \<Rightarrow> bool" where
  "is_Add (Add p) = True"
| "is_Add _ = False"

fun is_MigrateTo :: "event \<Rightarrow> bool" where
  "is_MigrateTo (MigrateTo v) = True"
| "is_MigrateTo _ = False"

text \<open>\<open>first_then P Q xs\<close>: no element with \<open>Q\<close> stands before the first element with \<open>P\<close>.\<close>

fun first_then :: "('a \<Rightarrow> bool) \<Rightarrow> ('a \<Rightarrow> bool) \<Rightarrow> 'a list \<Rightarrow> bool" where
  "first_then P Q [] = True"
| "first_then P Q (x # xs) = (if P x then True else if Q x then False else first_then P Q xs)"

text \<open>The comparison \<^verbatim>\<open><\<close> of two numbers.\<close>

fun num_less :: "number \<Rightarrow> number \<Rightarrow> bool" where
  "num_less NaN y = False"
| "num_less x NaN = False"
| "num_less (Fin p) (Fin q) = (p < q)"
| "num_less (Fin p) PosInf = True"
| "num_less NegInf (Fin q) = True"
| "num_less NegInf PosInf = True"
| "num_less x y = False"

text \<open>
  A decimal numeral with exactly one fraction digit: an optional minus sign, one or
  more digits, a dot, one digit.
\<close>

definition one_fraction_digit :: "jsstring \<Rightarrow> bool" where
  "one_fraction_digit s =
     (let b = (if take 1 s = str ''-'' then drop 1 s else s)
      in 3 \<le> length b \<and> list_all is_digit (take (length b - 2) b)
         \<and> b ! (length b - 2) = 0x2E \<and> is_digit (b ! (length b - 1)))"

text \<open>The form the specification gives to a version name: digit, dot, digit.\<close>

fun digit_dot_digit :: "jsstring \<Rightarrow> bool" where
  "digit_dot_digit [a, b, c] = (is_digit a \<and> b = 0x2E \<and> is_digit c)"
| "digit_dot_digit _ = False"

text \<open>Versions in ascending numeric order, none of them twice.\<close>

definition ascending_unique :: "jsstring list \<Rightarrow> bool" where
  "ascending_unique vs = sorted_wrt num_less (map parseFloat_str vs)"

fun strictly_positive :: "number \<Rightarrow> bool" where
  "strictly_positive (Fin q) = (0 < q)"
| "strictly_positive PosInf = True"
| "strictly_positive _ = False"

fun finite_non_negative :: "number \<Rightarrow> bool" where
  "finite_non_negative (Fin q) = (0 \<le> q)"
| "finite_non_negative _ = False"

text \<open>
  The grammar the specification gives to the argument of \<^verbatim>\<open>migrateTo\<close>: \<^verbatim>\<open><number>\<close> or
  \<^verbatim>\<open><number>,rerun\<close>. A number is a number value or, in a string, a decimal numeral: digits,
  optionally followed by a dot and more digits.
\<close>

definition decimal_numeral :: "jsstring \<Rightarrow> bool" where
  "decimal_numeral s =
     (let ip = takeWhile is_digit s; r = dropWhile is_digit s
      in ip \<noteq> [] \<and> (r = [] \<or> (take 1 r = str ''.'' \<and> drop 1 r \<noteq> []
                                  \<and> list_all is_digit (drop 1 r))))"

definition spec_grammar :: "jsval \<Rightarrow> bool" where
  "spec_grammar v =
     (case v of
        JNum n \<Rightarrow> True
      | JStr s \<Rightarrow>
          decimal_numeral s
          \<or> (drop (length s - 6) s = str '',rerun'' \<and> decimal_numeral (take (length s - 6) s))
      | _ \<Rightarrow> False)"

text \<open>An option that is typed \<^verbatim>\<open>boolean\<close> holds a boolean, or nothing when it was not given.\<close>

fun boolean_or_undefined :: "jsval \<Rightarrow> bool" where
  "boolean_or_undefined Undefined = True"
| "boolean_or_undefined (JBool b) = True"
| "boolean_or_undefined _ = False"

subsection \<open>Sample runs\<close>

text \<open>
  A process started in \<^verbatim>\<open>/w\<close> with no configuration file and both directories in place;
  the default directories resolve to \<^verbatim>\<open>/w/migrations\<close> and \<^verbatim>\<open>/w/migrations/backups\<close>.
\<close>

definition sample_env :: "jsstring list \<Rightarrow> env" where
  "sample_env listing =
     \<lparr>cwd = JStr (str ''/w''),
      require_config = (\<lambda>p. empty_configFile),
      path_resolve_join = (\<lambda>d p. js_toString d @ str ''/'' @ drop 2 (js_toString p)),
      exists_migrationsDir = True,
      exists_backupsDir = True,
      readdirSync = listing,
      getVersion = Fin 0,
      date_now = 1700000000000,
      exec_error = False\<rparr>"

text \<open>\<^verbatim>\<open>underbase-cli migrate <migration>\<close> with no option.\<close>

definition sample_argv :: "jsval \<Rightarrow> argv" where
  "sample_argv target =
     \<lparr>argv_command = JStr (str ''migrate''), argv_migration = target, argv_rerun = Undefined,
      argv_logs = Undefined, argv_backup = Undefined, argv_config = Undefined,
      argv_chdir = Undefined, argv_collectionName = Undefined, argv_db = Undefined,
      argv_backupsDir = Undefined, argv_migrationsDir = Undefined,
      argv_mongodumpBinary = Undefined\<rparr>"

text \<open>A configuration file that asks for a silent run.\<close>

definition quiet_file :: configFile where
  "quiet_file = empty_configFile\<lparr>file_logs := JBool False, file_logIfLatest := JBool False\<rparr>"

section \<open>The run of the script, event by event\<close>

lemma pending_append: "pending (q @ r) = pending q @ pending r"
  by (induction q rule: pending.induct) simp_all

lemma pending_map_Resume: "pending (map (\<lambda>v. Resume_callback (f v)) vs) = map f vs"
  by (induction vs) simp_all

text \<open>Awaiting runs the suspended callbacks: each calls \<^verbatim>\<open>migrator.add\<close>, in queue order.\<close>

lemma await_state:
  "await st = st\<lparr>trace := trace st @ map Add (pending (queue st)), queue := []\<rparr>"
proof (induction st rule: await.induct)
  case (1 st)
  show ?case
  proof (cases "queue st")
    case Nil
    then show ?thesis by (simp add: await.simps [of st])
  next
    case (Cons t q)
    note IH = "1.IH" [OF Cons]
    show ?thesis
    proof (cases t)
      case (Resume_callback p)
      with Cons IH show ?thesis
        by (simp add: await.simps [of st] enqueue_def emit_def pending_append)
    next
      case (Finish_callback p)
      with Cons IH show ?thesis
        by (simp add: await.simps [of st])
    qed
  qed
qed

lemma forEach_callback:
  "forEach vs (callback cfg) st =
     st\<lparr>trace := trace st @ map (\<lambda>v. Require (migrationsDir cfg @ str ''/'' @ v)) vs,
        queue := queue st @ map (\<lambda>v. Resume_callback (migrationsDir cfg @ str ''/'' @ v)) vs\<rparr>"
  unfolding forEach_def
  by (induction vs arbitrary: st) (simp_all add: callback_def enqueue_def emit_def Let_def)

lemma ensure_directories_state:
  "ensure_directories w cfg st =
     st\<lparr>trace := trace st @
        (if exists_migrationsDir w then []
         else [Mkdirp (migrationsDir cfg), Log (str ''info'') (str ''Created migration directory.'')]) @
        (if exists_backupsDir w then []
         else [Mkdirp (backupsDir cfg), Log (str ''info'') (str ''Created backup directory.'')])\<rparr>"
  by (simp add: ensure_directories_def logger_def emit_def Let_def)

lemma setup_state:
  "ensure_directories w cfg initial = \<lparr>trace = setup_events w cfg, queue = [], exited = False\<rparr>"
  by (simp add: setup_events_def ensure_directories_state initial_def)


lemma truthy_migrate: "truthy (JStr (str ''migrate''))"
  by (simp add: truthy_def str_def)

text \<open>The three shapes of a \<^verbatim>\<open>migrate\<close> run.\<close>

lemma main_unknown:
  assumes "argv_command a = JStr (str ''migrate'')" and "unknown_version w a"
  shows "main w a = setup_events w (config_of w a) @
           [Log (str ''error'') (str ''This version does not exists.''), Exit]"
  using assms
  by (simp add: main_def truthy_migrate migrate_command_def setup_state process_exit_def
      logger_def emit_def Let_def)

lemma main_known_backup:
  assumes "argv_command a = JStr (str ''migrate'')" and "\<not> unknown_version w a"
    and "truthy (backup (config_of w a))"
  shows "main w a = setup_events w (config_of w a) @ [Config (config_of w a)] @
           map Require (module_paths w a) @ [GetVersion] @ map Add (module_paths w a) @
           [Log (str ''info'') (str ''Creating backup...''),
            Exec (backup_cmd (config_of w a) (backupFile (getVersion w) (date_now w)))] @
           (if exec_error w
            then [Log (str ''error'') (str ''An error occured while creating backup... Cancelling.''),
                  ConsoleError, Exit]
            else [Log (str ''success'')
                    (str ''Backup created : '' @ backupFile (getVersion w) (date_now w)),
                  MigrateTo (migrateTo_arg a), Exit])"
  using assms
  by (simp add: main_def truthy_migrate migrate_command_def setup_state process_exit_def
      logger_def emit_def Let_def await_state forEach_callback createBackup_def
      pending_map_Resume module_paths_def comp_def)

lemma main_known_plain:
  assumes "argv_command a = JStr (str ''migrate'')" and "\<not> unknown_version w a"
    and "\<not> truthy (backup (config_of w a))"
  shows "main w a = setup_events w (config_of w a) @ [Config (config_of w a)] @
           map Require (module_paths w a) @ [MigrateTo (migrateTo_arg a)] @
           map Add (module_paths w a) @ [Exit]"
  using assms
  by (simp add: main_def truthy_migrate migrate_command_def setup_state process_exit_def
      logger_def emit_def Let_def await_state forEach_callback
      pending_map_Resume module_paths_def comp_def)

section \<open>Evaluating the built-ins on numerals\<close>

lemma powi_rat: "(b::rat) powi k = (if 0 \<le> k then b ^ nat k else 1 / b ^ nat (- k))"
  by (simp add: power_int_def power_one_over inverse_eq_divide)

lemma floor_rat_numeral:
  "\<lfloor>numeral a / numeral b :: rat\<rfloor> = numeral a div numeral b"
  "\<lfloor>1 / numeral b :: rat\<rfloor> = 1 div numeral b"
  by (metis floor_divide_of_int_eq of_int_numeral, metis floor_divide_of_int_eq of_int_1 of_int_numeral)

lemma ceiling_rat_numeral:
  "\<lceil>numeral a / numeral b :: rat\<rceil> = - (- numeral a div numeral b)"
  "\<lceil>1 / numeral b :: rat\<rceil> = - (- 1 div numeral b)"
  using ceiling_divide_eq_div [of "numeral a" "numeral b", where ?'a = rat]
    ceiling_divide_eq_div [of 1 "numeral b", where ?'a = rat] by simp_all

lemma floorlog_numeral:
  "floorlog b 0 = 0"
  "floorlog b 1 = (if 1 < b then 1 else 0)"
  "floorlog b (Suc 0) = (if 1 < b then 1 else 0)"
  "floorlog b (numeral n) = (if 1 < b then floorlog b (numeral n div b) + 1 else 0)"
proof -
  show "floorlog b 0 = 0"
    by (simp add: floorlog_def)
  have "floorlog b (Suc 0) = (if 1 < b then floorlog b 0 + 1 else 0)"
    by (subst compute_floorlog) simp
  then show "floorlog b (Suc 0) = (if 1 < b then 1 else 0)"
    by (simp add: floorlog_def)
  then show "floorlog b 1 = (if 1 < b then 1 else 0)"
    by simp
  show "floorlog b (numeral n) = (if 1 < b then floorlog b (numeral n div b) + 1 else 0)"
    by (subst compute_floorlog) simp
qed

lemma digits_numeral:
  "digits 0 = [digit_char 0]"
  "digits 1 = [digit_char 1]"
  "digits (Suc 0) = [digit_char 1]"
  "digits (numeral n) =
     (if numeral n < (10::nat) then [digit_char (numeral n)]
      else digits (numeral n div 10) @ [digit_char (numeral n mod 10)])"
  by (simp_all add: digits.simps [of 0] digits.simps [of "Suc 0"] digits.simps [of "numeral n"])

lemmas number_eval = to_double_def flog_def round_even_def floorlog_numeral Let_def powi_rat
  floor_rat_numeral ceiling_rat_numeral

lemmas string_eval = str_def is_space_def is_digit_def line_terminator_def digit_char_def
  digit_val_def digits_val_def digits_numeral

lemmas parse_eval = parseFloat_def parseFloat_str_def exponent_part_def js_toString_def
  number_to_string_def positive_to_string_def shortest_def candidates_def reads_back_def
  dec_value_def upt_rec

lemmas config_eval = config_of_def configFile_of_def workingDirectory_def js_or_def truthy_def
  empty_configFile_def sample_env_def sample_argv_def

lemma parse_1_0: "parseFloat_str (str ''1.0'') = Fin 1"
  by (simp add: parse_eval string_eval number_eval)

lemma parse_1_1: "parseFloat_str (str ''1.1'') = Fin (2476979795053773 / 2251799813685248)"
  by (simp add: parse_eval string_eval number_eval)

lemma parse_0_0: "parseFloat_str (str ''0.0'') = Fin 0"
  by (simp add: parse_eval string_eval number_eval)

lemma parse_1a0: "parseFloat_str (str ''1a0'') = Fin 1"
  by (simp add: parse_eval string_eval number_eval)

lemma parse_num_1: "parseFloat (JNum (Fin 1)) = Fin 1"
  by (simp add: parse_eval string_eval number_eval)


lemma parse_num_0: "parseFloat (JNum (Fin 0)) = Fin 0"
  by (simp add: parse_eval string_eval number_eval)

lemma toFixed1_1: "toFixed1 (Fin 1) = str ''1.0''"
  by (simp add: toFixed1_def string_eval number_eval)

lemma toFixed1_0: "toFixed1 (Fin 0) = str ''0.0''"
  by (simp add: toFixed1_def string_eval number_eval)

lemma toFixed1_1_1: "toFixed1 (Fin (2476979795053773 / 2251799813685248)) = str ''1.1''"
  by (simp add: toFixed1_def string_eval number_eval)

lemma regex_samples:
  "version_regex (str ''1.0'')" "version_regex (str ''1.1'')" "version_regex (str ''0.0'')"
  "version_regex (str ''1a0'')" "\<not> version_regex (str ''README.md'')"
  by (simp_all add: string_eval)

lemma sample_dirs:
  "migrationsDir (config_of (sample_env l) (sample_argv t)) = str ''/w/migrations''"
  "backupsDir (config_of (sample_env l) (sample_argv t)) = str ''/w/migrations/backups''"
  "\<not> truthy (backup (config_of (sample_env l) (sample_argv t)))"
  by (simp_all add: config_eval js_toString_def str_def)

section \<open>Properties of a run\<close>

subsection \<open>The version check\<close>




lemma sample_command: "argv_command (sample_argv t) = JStr (str ''migrate'')"
  by (simp add: sample_argv_def)

lemma sample_fields:
  "argv_migration (sample_argv t) = t" "argv_rerun (sample_argv t) = Undefined"
  "readdirSync (sample_env l) = l" "exec_error (sample_env l) = False"
  "getVersion (sample_env l) = Fin 0" "date_now (sample_env l) = 1700000000000"
  by (simp_all add: sample_argv_def sample_env_def)

lemma sample_setup: "setup_events (sample_env l) cfg = []"
  by (simp add: setup_events_def ensure_directories_state initial_def sample_env_def)



subsection \<open>Registration, the filter and the merged options\<close>

lemma sample_unknown_1: "\<not> unknown_version (sample_env [str ''1.0'']) (sample_argv (JNum (Fin 1)))"
  by (simp add: unknown_version_def sample_fields versionsArray_def versions_listed_def
      regex_samples parse_1_0 parse_num_1 num_eq_def)

lemma str_append: "str a @ str b = str (a @ b)"
  by (simp add: str_def)

lemma versions_1_0: "versions [str ''1.0''] = [str ''1.0'']"
  by (simp add: versions_def versionsArray_def versions_listed_def regex_samples parse_1_0
      toFixed1_1)

lemma sample_paths_1:
  "module_paths (sample_env [str ''1.0'']) (sample_argv t) = [str ''/w/migrations/1.0'']"
  by (simp add: module_paths_def sample_dirs sample_fields versions_1_0 str_append)

text \<open>
  C2. Every discovered unit is to be registered with \<^verbatim>\<open>migrator.add\<close> before
  \<^verbatim>\<open>migrator.migrateTo\<close> is invoked. The run below has one unit, \<^verbatim>\<open>1.0\<close>, the target \<open>1\<close> and
  no backup: the module is required, then \<^verbatim>\<open>migrateTo\<close> is called, and only then does the
  suspended callback of \<^verbatim>\<open>forEach\<close> call \<^verbatim>\<open>add\<close>.
\<close>

theorem migrateTo_before_add:
  "main (sample_env [str ''1.0'']) (sample_argv (JNum (Fin 1))) =
     [Config (config_of (sample_env [str ''1.0'']) (sample_argv (JNum (Fin 1)))),
      Require (str ''/w/migrations/1.0''),
      MigrateTo (JNum (Fin 1)),
      Add (str ''/w/migrations/1.0''),
      Exit]"
  by (simp add: main_known_plain [OF sample_command sample_unknown_1 sample_dirs(3)]
      sample_setup sample_paths_1 migrateTo_arg_def sample_fields truthy_def)

lemma digit_dot_digit_1a0: "\<not> digit_dot_digit (str ''1a0'')"
  by (simp add: string_eval)

text \<open>
  C3. An entry is to count as a version exactly when its name is a digit, a literal dot and
  a digit. The filter accepts \<^verbatim>\<open>1a0\<close>, which has no dot: the entry survives the listing
  and is turned into the version \<^verbatim>\<open>1.0\<close>, while \<^verbatim>\<open>README.md\<close> is dropped.
\<close>

theorem regex_accepts_1a0:
  "version_regex (str ''1a0'') \<and> \<not> digit_dot_digit (str ''1a0'')
   \<and> versions_listed [str ''README.md'', str ''1a0''] = [str ''1a0'']
   \<and> versions [str ''README.md'', str ''1a0''] = [str ''1.0'']"
  by (simp add: versions_def versionsArray_def versions_listed_def regex_samples parse_1a0
      toFixed1_1 digit_dot_digit_1a0)

lemma logIfLatest_config_of: "logIfLatest (config_of w a) = JBool True"
  by (simp add: config_of_def Let_def)

text \<open>
  C8. The "already at latest" notice is to be suppressible through \<^verbatim>\<open>logIfLatest\<close>. With a
  configuration file that sets \<^verbatim>\<open>logIfLatest\<close> to \<^verbatim>\<open>false\<close>, the configuration passed to the
  migrator still has \<^verbatim>\<open>logIfLatest\<close> true.
\<close>

theorem logIfLatest_ignored:
  "file_logIfLatest
     (configFile_of ((sample_env [])\<lparr>require_config := (\<lambda>p. quiet_file)\<rparr>)
        ((sample_argv (JNum (Fin 1)))\<lparr>argv_config := JStr (str ''underbase.js'')\<rparr>)) = JBool False
   \<and> logIfLatest
       (config_of ((sample_env [])\<lparr>require_config := (\<lambda>p. quiet_file)\<rparr>)
          ((sample_argv (JNum (Fin 1)))\<lparr>argv_config := JStr (str ''underbase.js'')\<rparr>)) = JBool True"
  by (simp add: logIfLatest_config_of configFile_of_def sample_env_def sample_argv_def
      quiet_file_def truthy_def str_def)

text \<open>
  C10, as stated: the \<^verbatim>\<open>logs\<close> value passed to the migrator is to be \<^verbatim>\<open>true\<close> for every
  command line and configuration file. With \<^verbatim>\<open>--logs=false\<close> yargs hands over the string
  \<^verbatim>\<open>false\<close>, which is truthy, and \<^verbatim>\<open>||\<close> passes that string on.
\<close>

theorem logs_string_passed:
  "logs (config_of (sample_env []) ((sample_argv (JNum (Fin 1)))\<lparr>argv_logs := JStr (str ''false'')\<rparr>))
     = JStr (str ''false'')
   \<and> logs (config_of (sample_env []) ((sample_argv (JNum (Fin 1)))\<lparr>argv_logs := JStr (str ''false'')\<rparr>))
     \<noteq> JBool True"
  by (simp add: config_of_def Let_def js_or_def truthy_def sample_argv_def str_def)

text \<open>
  C10, amended. The \<^verbatim>\<open>logs\<close> value of the merged configuration is truthy and is never
  \<^verbatim>\<open>false\<close>, whatever the command line and the configuration file say, so logging cannot be
  disabled; when both give a boolean or nothing, as their types promise, it is \<^verbatim>\<open>true\<close>.
\<close>

theorem logs_never_false:
  "truthy (logs (config_of w a)) \<and> logs (config_of w a) \<noteq> JBool False
   \<and> (boolean_or_undefined (argv_logs a) \<and> boolean_or_undefined (file_logs (configFile_of w a))
        \<longrightarrow> logs (config_of w a) = JBool True)"
proof -
  have "truthy (logs (config_of w a))"
    by (simp add: config_of_def Let_def js_or_def truthy_def)
  moreover from this have "logs (config_of w a) \<noteq> JBool False"
    by (auto simp: truthy_def)
  moreover have "logs (config_of w a) = JBool True"
    if "boolean_or_undefined (argv_logs a)" "boolean_or_undefined (file_logs (configFile_of w a))"
    using that
    by (cases "argv_logs a"; cases "file_logs (configFile_of w a)")
       (auto simp: config_of_def Let_def js_or_def truthy_def)
  ultimately show ?thesis by blast
qed

text \<open>\<^verbatim>\<open>--logs=false\<close> on the command line and \<^verbatim>\<open>logs: false\<close> in the file.\<close>

theorem logs_never_false_witness:
  "boolean_or_undefined (JBool False) \<and> boolean_or_undefined (file_logs quiet_file)
   \<and> file_logs quiet_file = JBool False
   \<and> logs (config_of ((sample_env [])\<lparr>require_config := (\<lambda>p. quiet_file)\<rparr>)
        ((sample_argv (JNum (Fin 1)))\<lparr>argv_config := JStr (str ''underbase.js''),
           argv_logs := JBool False\<rparr>)) = JBool True"
  using logs_never_false [of "(sample_env [])\<lparr>require_config := (\<lambda>p. quiet_file)\<rparr>"
      "(sample_argv (JNum (Fin 1)))\<lparr>argv_config := JStr (str ''underbase.js''),
           argv_logs := JBool False\<rparr>"]
  by (simp add: configFile_of_def sample_env_def sample_argv_def quiet_file_def truthy_def str_def)

subsection \<open>The calls of \<^verbatim>\<open>migrateTo\<close> and of the dump\<close>

lemma forEach_emit:
  "forEach vs (\<lambda>v. emit (f v)) st = st\<lparr>trace := trace st @ map f vs\<rparr>"
  unfolding forEach_def
  by (induction vs arbitrary: st) (simp_all add: emit_def)

lemma filter_map_other:
  "filter is_Exec (map Require ps) = []" "filter is_Exec (map Add ps) = []"
  "filter is_MigrateTo (map Require ps) = []" "filter is_MigrateTo (map Add ps) = []"
  by (induction ps) simp_all

lemma filter_setup:
  "filter is_Exec (setup_events w cfg) = []" "filter is_MigrateTo (setup_events w cfg) = []"
  by (simp_all add: setup_events_def ensure_directories_state initial_def)

lemma first_then_skip:
  "filter P xs = [] \<Longrightarrow> filter Q xs = [] \<Longrightarrow> first_then P Q (xs @ ys) = first_then P Q ys"
  by (induction xs) (auto split: if_splits)

lemma main_other:
  assumes "argv_command a \<noteq> JStr (str ''migrate'')"
  shows "filter is_MigrateTo (main w a) = [] \<and> filter is_Exec (main w a) = []"
  using assms
  by (simp add: main_def Let_def process_exit_def logger_def emit_def initial_def
      list_command_def status_command_def forEach_emit ensure_directories_state await_state
      comp_def)

lemma migrateTo_calls:
  "filter is_MigrateTo (main w a) =
     (if argv_command a = JStr (str ''migrate'') \<and> \<not> unknown_version w a
         \<and> \<not> (truthy (backup (config_of w a)) \<and> exec_error w)
      then [MigrateTo (migrateTo_arg a)] else [])"
proof (cases "argv_command a = JStr (str ''migrate'')")
  case False
  then show ?thesis by (simp add: main_other)
next
  case cmd: True
  show ?thesis
  proof (cases "unknown_version w a")
    case True
    then show ?thesis
      by (simp add: main_unknown [OF cmd True] filter_setup)
  next
    case known: False
    show ?thesis
    proof (cases "truthy (backup (config_of w a))")
      case True
      then show ?thesis
        using cmd known
        by (simp add: main_known_backup [OF cmd known True] filter_setup filter_map_other)
    next
      case False
      then show ?thesis
        using cmd known
        by (simp add: main_known_plain [OF cmd known False] filter_setup filter_map_other)
    qed
  qed
qed

lemma exec_calls:
  "filter is_Exec (main w a) =
     (if argv_command a = JStr (str ''migrate'') \<and> \<not> unknown_version w a
         \<and> truthy (backup (config_of w a))
      then [Exec (backup_cmd (config_of w a) (backupFile (getVersion w) (date_now w)))] else [])"
proof (cases "argv_command a = JStr (str ''migrate'')")
  case False
  then show ?thesis by (simp add: main_other)
next
  case cmd: True
  show ?thesis
  proof (cases "unknown_version w a")
    case True
    then show ?thesis
      by (simp add: main_unknown [OF cmd True] filter_setup)
  next
    case known: False
    show ?thesis
    proof (cases "truthy (backup (config_of w a))")
      case True
      then show ?thesis
        using cmd known
        by (simp add: main_known_backup [OF cmd known True] filter_setup filter_map_other)
    next
      case False
      then show ?thesis
        using cmd known
        by (simp add: main_known_plain [OF cmd known False] filter_setup filter_map_other)
    qed
  qed
qed





lemma grammar_samples: "spec_grammar (JStr (str ''1.1,rerun''))" "spec_grammar (JStr (str ''1.1''))"
  "\<not> spec_grammar (JStr (str ''1.0abc,rerun''))"
  by (simp_all add: spec_grammar_def decimal_numeral_def string_eval)



text \<open>
  C5. In a \<^verbatim>\<open>migrate\<close> run with backups enabled the dump is started once (never, when the
  run is rejected for its version before anything happens), no call of \<^verbatim>\<open>migrateTo\<close>,
  inside which the units execute, stands before it, and when the dump fails there is no
  call of \<^verbatim>\<open>migrateTo\<close> at all. With backups disabled no dump is started.
\<close>

theorem backup_before_migration:
  assumes "argv_command a = JStr (str ''migrate'')"
  shows "(truthy (backup (config_of w a)) \<longrightarrow>
            length (filter is_Exec (main w a)) = (if unknown_version w a then 0 else 1)
            \<and> first_then is_Exec is_MigrateTo (main w a)
            \<and> (exec_error w \<longrightarrow> \<not> list_ex is_MigrateTo (main w a)))
       \<and> (\<not> truthy (backup (config_of w a)) \<longrightarrow> \<not> list_ex is_Exec (main w a))"
proof (intro conjI impI)
  assume b: "truthy (backup (config_of w a))"
  show "length (filter is_Exec (main w a)) = (if unknown_version w a then 0 else 1)"
    using assms b by (simp add: exec_calls)
  show "first_then is_Exec is_MigrateTo (main w a)"
  proof (cases "unknown_version w a")
    case True
    show ?thesis
      by (simp add: main_unknown [OF assms True] first_then_skip filter_setup)
  next
    case False
    show ?thesis
      by (simp add: main_known_backup [OF assms False b] first_then_skip filter_setup
          filter_map_other)
  qed
  show "\<not> list_ex is_MigrateTo (main w a)" if "exec_error w"
    using that b migrateTo_calls [of w a]
    by (simp add: list_ex_iff filter_empty_conv)
next
  assume "\<not> truthy (backup (config_of w a))"
  then show "\<not> list_ex is_Exec (main w a)"
    using exec_calls [of w a] by (simp add: list_ex_iff filter_empty_conv)
qed


lemma sample_backup_on:
  "truthy (backup (config_of w ((sample_argv t)\<lparr>argv_backup := JBool True\<rparr>)))"
  by (simp add: config_of_def Let_def js_or_def truthy_def sample_argv_def)

lemma unknown_version_cong:
  "readdirSync w = readdirSync w' \<Longrightarrow> argv_migration a = argv_migration a'
   \<Longrightarrow> unknown_version w a = unknown_version w' a'"
  by (simp add: unknown_version_def)

text \<open>One unit and the target \<open>1\<close>: with a backup, with a failing backup, without.\<close>

theorem backup_before_migration_witness:
  "argv_command ((sample_argv (JNum (Fin 1)))\<lparr>argv_backup := JBool True\<rparr>) = JStr (str ''migrate'')
   \<and> truthy (backup (config_of (sample_env [str ''1.0''])
                 ((sample_argv (JNum (Fin 1)))\<lparr>argv_backup := JBool True\<rparr>)))
   \<and> length (filter is_Exec (main (sample_env [str ''1.0''])
                 ((sample_argv (JNum (Fin 1)))\<lparr>argv_backup := JBool True\<rparr>))) = 1
   \<and> first_then is_Exec is_MigrateTo
        (main (sample_env [str ''1.0'']) ((sample_argv (JNum (Fin 1)))\<lparr>argv_backup := JBool True\<rparr>))
   \<and> exec_error ((sample_env [str ''1.0''])\<lparr>exec_error := True\<rparr>)
   \<and> \<not> list_ex is_MigrateTo
        (main ((sample_env [str ''1.0''])\<lparr>exec_error := True\<rparr>)
           ((sample_argv (JNum (Fin 1)))\<lparr>argv_backup := JBool True\<rparr>))
   \<and> \<not> truthy (backup (config_of (sample_env [str ''1.0'']) (sample_argv (JNum (Fin 1)))))
   \<and> \<not> list_ex is_Exec (main (sample_env [str ''1.0'']) (sample_argv (JNum (Fin 1))))"
proof -
  let ?w = "sample_env [str ''1.0'']"
  let ?w' = "(sample_env [str ''1.0''])\<lparr>exec_error := True\<rparr>"
  let ?a = "sample_argv (JNum (Fin 1))"
  let ?b = "(sample_argv (JNum (Fin 1)))\<lparr>argv_backup := JBool True\<rparr>"
  have cmd: "argv_command ?b = JStr (str ''migrate'')"
    by (simp add: sample_argv_def)
  have on: "truthy (backup (config_of ?w ?b))" "truthy (backup (config_of ?w' ?b))"
    by (rule sample_backup_on)+
  have known: "\<not> unknown_version ?w ?b" "\<not> unknown_version ?w' ?b"
    using sample_unknown_1
      unknown_version_cong [of ?w "sample_env [str ''1.0'']" ?b "sample_argv (JNum (Fin 1))"]
      unknown_version_cong [of ?w' "sample_env [str ''1.0'']" ?b "sample_argv (JNum (Fin 1))"]
    by simp_all
  have err: "exec_error ?w'"
    by simp
  note off = sample_dirs(3) [of "[str ''1.0'']" "JNum (Fin 1)"]
  from backup_before_migration [OF cmd, of ?w] on(1) known(1)
  have one: "length (filter is_Exec (main ?w ?b)) = 1"
    and first: "first_then is_Exec is_MigrateTo (main ?w ?b)"
    by simp_all
  from backup_before_migration [OF cmd, of ?w'] on(2) err
  have none: "\<not> list_ex is_MigrateTo (main ?w' ?b)"
    by blast
  from backup_before_migration [OF sample_command, of ?w "JNum (Fin 1)"] off
  have plain: "\<not> list_ex is_Exec (main ?w ?a)"
    by blast
  show ?thesis
    using cmd on(1) one first err none off plain by blast
qed


subsection \<open>Digits and the layout of \<^verbatim>\<open>toFixed(1)\<close>\<close>

lemma is_digit_unat: "is_digit c \<longleftrightarrow> 48 \<le> unat c \<and> unat c \<le> 57"
  by (simp add: is_digit_def word_le_nat_alt)

lemma unat_digit_char: "d < 10 \<Longrightarrow> unat (digit_char d) = 48 + d"
  unfolding digit_char_def by (subst unat_of_nat) simp

lemma is_digit_digit_char: "d < 10 \<Longrightarrow> is_digit (digit_char d)"
  by (simp add: is_digit_unat unat_digit_char)

lemma digit_val_digit_char: "d < 10 \<Longrightarrow> digit_val (digit_char d) = d"
  by (simp add: digit_val_def unat_digit_char)

lemma digit_val_less: "is_digit c \<Longrightarrow> digit_val c < 10"
  by (auto simp: is_digit_unat digit_val_def)

lemma digit_char_digit_val: "is_digit c \<Longrightarrow> digit_char (digit_val c) = c"
proof -
  assume "is_digit c"
  then have "48 + digit_val c = unat c"
    by (auto simp: is_digit_unat digit_val_def)
  then show ?thesis
    unfolding digit_char_def by (simp only: of_nat_unat) simp
qed

lemma digits_nonempty: "digits n \<noteq> []"
  by (subst digits.simps) simp

lemma digits_all_digits: "list_all is_digit (digits n)"
proof (induction n rule: digits.induct)
  case (1 n)
  show ?case
  proof (cases "n < 10")
    case True
    then show ?thesis
      by (subst digits.simps) (simp add: is_digit_digit_char)
  next
    case False
    with 1 show ?thesis
      by (subst digits.simps) (simp add: is_digit_digit_char)
  qed
qed

lemma digits_small: "n < 10 \<Longrightarrow> digits n = [digit_char n]"
  by (subst digits.simps) simp

lemma minus_not_digit: "\<not> is_digit 0x2D"
  by (simp add: is_digit_def)

lemma str_minus: "str ''-'' = [0x2D]"
  by (simp add: str_def)

lemma one_fraction_digit_plain:
  assumes "ds \<noteq> []" and "list_all is_digit ds" and "is_digit c"
  shows "one_fraction_digit (ds @ [0x2E, c])"
proof -
  from assms obtain d ds' where ds: "ds = d # ds'" and d: "is_digit d"
    by (cases ds) auto
  then have "d \<noteq> 0x2D"
    using minus_not_digit by auto
  then show ?thesis
    using assms
    by (simp add: one_fraction_digit_def ds str_minus nth_append)
qed

lemma one_fraction_digit_minus:
  assumes "ds \<noteq> []" and "list_all is_digit ds" and "is_digit c"
  shows "one_fraction_digit (str ''-'' @ ds @ [0x2E, c])"
  using assms
  by (cases ds) (simp_all add: one_fraction_digit_def str_minus nth_append)

lemma toFixed1_layout:
  assumes "\<bar>q\<bar> < 10 ^ 21"
  shows "toFixed1 (Fin q) =
           (if q < 0 then str ''-'' else []) @ digits (nat \<lfloor>\<bar>q\<bar> * 10 + 1 / 2\<rfloor> div 10) @
           [0x2E, digit_char (nat \<lfloor>\<bar>q\<bar> * 10 + 1 / 2\<rfloor> mod 10)]"
  using assms by (simp add: toFixed1_def Let_def digits_small str_def)

lemma toFixed1_format:
  assumes "\<bar>q\<bar> < 10 ^ 21"
  shows "one_fraction_digit (toFixed1 (Fin q))"
  unfolding toFixed1_layout [OF assms]
  using one_fraction_digit_plain [OF digits_nonempty digits_all_digits is_digit_digit_char]
    one_fraction_digit_minus [OF digits_nonempty digits_all_digits is_digit_digit_char]
  by simp

subsection \<open>The archive of a backup\<close>







subsection \<open>Rounding to a double\<close>

lemma flog2_lower:
  assumes "0 < x"
  shows "2 powi (flog 2 x) \<le> x"
proof (cases "1 \<le> x")
  case True
  define n where "n = nat \<lfloor>x\<rfloor>"
  have n: "0 < n" "rat_of_nat n \<le> x"
    using True by (simp_all add: n_def le_floor_iff)
  from floorlog_bounds [of n 2] n have b1: "2 ^ (floorlog 2 n - 1) \<le> n"
    by simp
  have b2: "0 < floorlog 2 n"
    using n(1) by (simp add: floorlog_def)
  note b = b1 b2
  have "flog 2 x = int (floorlog 2 n - 1)"
    using True b by (simp add: flog_def n_def)
  then have "2 powi (flog 2 x) = rat_of_nat (2 ^ (floorlog 2 n - 1))"
    by (simp add: power_int_def)
  also have "\<dots> \<le> rat_of_nat n"
    using b(1) by (simp only: of_nat_le_iff)
  finally show ?thesis
    using n(2) by simp
next
  case False
  define m where "m = nat (\<lceil>1 / x\<rceil> - 1)"
  have y: "1 < 1 / x"
    using False assms by simp
  then have "1 < \<lceil>1 / x\<rceil>"
    by (simp only: less_ceiling_iff of_int_1)
  then have c: "2 \<le> \<lceil>1 / x\<rceil>"
    by linarith
  then have m: "0 < m" "int m + 1 = \<lceil>1 / x\<rceil>"
    unfolding m_def by linarith+
  from floorlog_bounds [of m 2] m have "m < 2 ^ floorlog 2 m"
    by simp
  then have "int m + 1 \<le> 2 ^ floorlog 2 m"
    by (metis Suc_leI of_nat_Suc of_nat_le_iff of_nat_numeral of_nat_power add.commute
        of_nat_1 of_nat_add)
  then have "\<lceil>1 / x\<rceil> \<le> 2 ^ floorlog 2 m"
    using m(2) by simp
  then have "1 / x \<le> 2 ^ floorlog 2 m"
    by (metis ceiling_le_iff of_int_numeral of_int_power)
  then have "1 / 2 ^ floorlog 2 m \<le> x"
    using assms by (simp add: field_simps)
  moreover have "flog 2 x = - int (floorlog 2 m)"
    using False by (simp add: flog_def m_def)
  ultimately show ?thesis
    by (simp add: power_int_minus inverse_eq_divide)
qed

lemma round_even_error: "\<bar>rat_of_int (round_even z) - z\<bar> \<le> 1 / 2"
proof -
  define f where "f = \<lfloor>z\<rfloor>"
  have f: "rat_of_int f \<le> z" "z < rat_of_int f + 1"
    unfolding f_def by linarith+
  show ?thesis
    unfolding round_even_def Let_def f_def [symmetric] using f
    by (auto simp: abs_le_iff)
qed

lemma round_even_nonneg: "0 \<le> z \<Longrightarrow> 0 \<le> round_even z"
proof -
  assume z: "0 \<le> z"
  define f where "f = \<lfloor>z\<rfloor>"
  have "0 \<le> f"
    unfolding f_def using z by simp
  then show ?thesis
    unfolding round_even_def Let_def f_def [symmetric] by auto
qed

lemma to_double_close:
  assumes "0 < x" and "x < 2 ^ 1023"
  shows "\<exists>y. to_double x = Fin y \<and> 0 \<le> y \<and> \<bar>y - x\<bar> \<le> x / 2 ^ 53 + 1 / 2 ^ 1075"
proof -
  define k where "k = max (flog 2 x) (- 1022)"
  define u where "u = (2::rat) powi (k - 52)"
  define y where "y = rat_of_int (round_even (x / u)) * u"
  have u: "0 < u"
    by (simp add: u_def)
  have "u \<le> x / 2 ^ 52 + 1 / 2 ^ 1074"
  proof (cases "- 1022 \<le> flog 2 x")
    case True
    then have "u = 2 powi (flog 2 x) / 2 ^ 52"
      by (simp add: u_def k_def power_int_diff)
    also have "\<dots> \<le> x / 2 ^ 52"
      using flog2_lower [OF assms(1)] by (simp add: divide_right_mono)
    finally show ?thesis
      by simp
  next
    case False
    then have "u = 1 / 2 ^ 1074"
      by (simp add: u_def k_def powi_rat)
    then show ?thesis
      using assms(1) by simp
  qed
  then have half: "u / 2 \<le> x / 2 ^ 53 + 1 / 2 ^ 1075"
    by simp
  have "y - x = (rat_of_int (round_even (x / u)) - x / u) * u"
    using u by (simp add: y_def left_diff_distrib)
  then have "\<bar>y - x\<bar> = \<bar>rat_of_int (round_even (x / u)) - x / u\<bar> * u"
    using u by (simp only: abs_mult abs_of_pos)
  also have "\<dots> \<le> 1 / 2 * u"
    using round_even_error [of "x / u"] u by (simp add: mult_right_mono del: times_divide_eq_left)
  finally have close: "\<bar>y - x\<bar> \<le> x / 2 ^ 53 + 1 / 2 ^ 1075"
    using half by simp
  have nonneg: "0 \<le> y"
    using round_even_nonneg [of "x / u"] u assms(1) by (simp add: y_def)
  have "y \<le> x + (x / 2 ^ 53 + 1 / 2 ^ 1075)"
    using close by linarith
  also have "\<dots> < 2 ^ 1024"
    using assms(2) by simp
  finally have "\<not> 2 powi 1024 \<le> y"
    by (simp add: powi_rat)
  then have "to_double x = Fin y"
    using assms(1) by (simp add: to_double_def Let_def k_def u_def y_def)
  with nonneg close show ?thesis
    by blast
qed

subsection \<open>\<^verbatim>\<open>parseFloat\<close> on the names the filter accepts\<close>

lemma digit_cases:
  assumes "is_digit a"
  shows "a = 0x30 \<or> a = 0x31 \<or> a = 0x32 \<or> a = 0x33 \<or> a = 0x34 \<or> a = 0x35 \<or> a = 0x36
         \<or> a = 0x37 \<or> a = 0x38 \<or> a = 0x39"
proof -
  from assms have "unat a \<in> {48, 49, 50, 51, 52, 53, 54, 55, 56, 57}"
    unfolding is_digit_unat by (simp only: insert_iff empty_iff) arith
  then have "word_of_nat (unat a) \<in> (word_of_nat ` {48, 49, 50, 51, 52, 53, 54, 55, 56, 57} :: code_unit set)"
    by (rule imageI)
  then show ?thesis
    by simp
qed

lemma digit_not_other:
  assumes "is_digit a"
  shows "\<not> is_space a" "a \<noteq> 0x2D" "a \<noteq> 0x2B" "a \<noteq> 0x2E" "a \<noteq> 0x65" "a \<noteq> 0x45"
  using digit_cases [OF assms] by (auto simp: is_space_def)

lemma str_signs: "str ''-'' = [0x2D]" "str ''+'' = [0x2B]" "str ''.'' = [0x2E]"
  by (simp_all add: str_def)

lemma three_not_Infinity: "[x, y, z] \<noteq> str ''Infinity''"
  by (simp add: str_def)

lemma parse_name:
  assumes a: "is_digit a" and c: "is_digit c"
  shows "parseFloat_str [a, b, c] =
           to_double
             (if b = 0x2E then rat_of_nat (10 * digit_val a + digit_val c) / 10
              else if is_digit b
                then rat_of_nat (100 * digit_val a + 10 * digit_val b + digit_val c)
              else if b = 0x65 \<or> b = 0x45 then rat_of_nat (digit_val a) * 10 ^ digit_val c
              else rat_of_nat (digit_val a))"
proof -
  note facts = digit_not_other [OF a] digit_not_other [OF c] str_signs three_not_Infinity a c
  consider (dot) "b = 0x2E" | (digit) "is_digit b"
    | (exp) "b = 0x65 \<or> b = 0x45" | (other) "b \<noteq> 0x2E" "\<not> is_digit b" "b \<noteq> 0x65" "b \<noteq> 0x45"
    by blast
  then show ?thesis
  proof cases
    case dot
    then have nb: "\<not> is_digit b"
      by (simp add: is_digit_def)
    show ?thesis
      using dot nb
      by (simp add: parseFloat_str_def Let_def facts exponent_part_def digits_val_def powi_rat)
  next
    case digit
    then show ?thesis
      using digit_not_other [OF digit]
      by (simp add: parseFloat_str_def Let_def facts exponent_part_def digits_val_def powi_rat)
  next
    case exp
    then have nb: "\<not> is_digit b" "b \<noteq> 0x2E"
      by (auto simp: is_digit_def)
    show ?thesis
      using exp nb
      by (auto simp: parseFloat_str_def Let_def facts exponent_part_def digits_val_def powi_rat)
  next
    case other
    then show ?thesis
      by (simp add: parseFloat_str_def Let_def facts exponent_part_def digits_val_def powi_rat)
  qed
qed

lemma version_regexE:
  assumes "version_regex n"
  obtains a b c where "n = [a, b, c]" "is_digit a" "\<not> line_terminator b" "is_digit c"
  using assms by (cases n rule: version_regex.cases) auto

lemma to_double_small:
  assumes "0 \<le> x" and "x \<le> 9000000000"
  shows "\<exists>y. to_double x = Fin y \<and> 0 \<le> y \<and> y < 10 ^ 21"
proof (cases "x = 0")
  case True
  then show ?thesis
    by (simp add: to_double_def)
next
  case False
  with assms have "0 < x" "x < 2 ^ 1023"
    by simp_all
  from to_double_close [OF this] obtain y
    where y: "to_double x = Fin y" "0 \<le> y" "\<bar>y - x\<bar> \<le> x / 2 ^ 53 + 1 / 2 ^ 1075"
    by blast
  then have "y \<le> x + (x / 2 ^ 53 + 1 / 2 ^ 1075)"
    by linarith
  also have "\<dots> < 10 ^ 21"
    using assms by simp
  finally show ?thesis
    using y by blast
qed

lemma accepted_value:
  assumes "version_regex n"
  shows "\<exists>y. parseFloat_str n = Fin y \<and> 0 \<le> y \<and> y < 10 ^ 21"
proof -
  from assms obtain a b c where n: "n = [a, b, c]" and a: "is_digit a" and c: "is_digit c"
    by (rule version_regexE)
  note va = digit_val_less [OF a] and vc = digit_val_less [OF c]
  define mv where "mv =
     (if b = 0x2E then rat_of_nat (10 * digit_val a + digit_val c) / 10
      else if is_digit b
        then rat_of_nat (100 * digit_val a + 10 * digit_val b + digit_val c)
      else if b = 0x65 \<or> b = 0x45 then rat_of_nat (digit_val a) * 10 ^ digit_val c
      else rat_of_nat (digit_val a))"
  have p: "parseFloat_str n = to_double mv"
    unfolding n mv_def by (rule parse_name [OF a c])
  have "rat_of_nat (digit_val a) * 10 ^ digit_val c \<le> 9 * 10 ^ 9"
  proof (rule mult_mono)
    show "rat_of_nat (digit_val a) \<le> 9"
      using va by simp
    show "(10::rat) ^ digit_val c \<le> 10 ^ 9"
      using vc by (intro power_increasing) simp_all
  qed simp_all
  then have "0 \<le> mv \<and> mv \<le> 9000000000"
    using va vc digit_val_less [of b] by (auto simp: mv_def)
  then show ?thesis
    using to_double_small [of mv] p by simp
qed

lemma roundtrip:
  assumes "digit_dot_digit n"
  shows "toFixed1 (parseFloat_str n) = n"
proof -
  from assms obtain a c where n: "n = [a, 0x2E, c]" and a: "is_digit a" and c: "is_digit c"
    by (cases n rule: digit_dot_digit.cases) auto
  note va = digit_val_less [OF a] and vc = digit_val_less [OF c]
  define N where "N = 10 * digit_val a + digit_val c"
  have N: "N < 100"
    using va vc by (simp add: N_def)
  have p: "parseFloat_str n = to_double (rat_of_nat N / 10)"
    unfolding n N_def using parse_name [OF a c, of "0x2E"] by simp
  have "\<exists>y. to_double (rat_of_nat N / 10) = Fin y \<and> 0 \<le> y \<and> \<bar>y * 10 - rat_of_nat N\<bar> < 1 / 2"
  proof (cases "N = 0")
    case True
    then show ?thesis
      by (simp add: to_double_def)
  next
    case False
    then have "0 < rat_of_nat N / 10" "rat_of_nat N / 10 < 2 ^ 1023"
      using N by simp_all
    from to_double_close [OF this] obtain y
      where y: "to_double (rat_of_nat N / 10) = Fin y" "0 \<le> y"
        "\<bar>y - rat_of_nat N / 10\<bar> \<le> rat_of_nat N / 10 / 2 ^ 53 + 1 / 2 ^ 1075"
      by blast
    have "rat_of_nat N \<le> 99"
      using N by simp
    then have "rat_of_nat N / 10 / 2 ^ 53 + 1 / 2 ^ 1075 < 1 / 20"
      by simp
    with y(3) have "\<bar>y - rat_of_nat N / 10\<bar> < 1 / 20"
      by linarith
    then have "\<bar>y * 10 - rat_of_nat N\<bar> < 1 / 2"
      unfolding abs_less_iff by (simp add: field_simps)
    with y show ?thesis
      by blast
  qed
  then obtain y where y: "parseFloat_str n = Fin y" "0 \<le> y" "\<bar>y * 10 - rat_of_nat N\<bar> < 1 / 2"
    using p by auto
  have "rat_of_nat N \<le> y * 10 + 1 / 2" "y * 10 + 1 / 2 < rat_of_nat N + 1"
    using y(3) unfolding abs_less_iff by linarith+
  then have fl: "\<lfloor>y * 10 + 1 / 2\<rfloor> = int N"
    by (intro floor_unique) simp_all
  have "rat_of_nat N < 100"
    using N by simp
  then have "y < 10 ^ 21"
    using \<open>y * 10 + 1 / 2 < rat_of_nat N + 1\<close> by simp
  then have small: "\<bar>y\<bar> < 10 ^ 21"
    using y(2) by simp
  have "N div 10 = digit_val a" "N mod 10 = digit_val c"
    using va vc by (simp_all add: N_def)
  then have "toFixed1 (Fin y) = [a, 0x2E, c]"
    using y(2) va
    by (simp add: toFixed1_layout [OF small] fl digits_small digit_char_digit_val a c)
  then show ?thesis
    using y(1) by (simp add: n)
qed

subsection \<open>The versions handed to the runner\<close>

lemma filter_Add:
  "filter is_Add (map Require ps) = []" "filter is_Add (map Add ps) = map Add ps"
  "filter is_Add (setup_events w cfg) = []"
  by (induction ps) (simp_all add: setup_events_def ensure_directories_state initial_def)

lemma add_calls:
  assumes "argv_command a = JStr (str ''migrate'')" and "\<not> unknown_version w a"
  shows "filter is_Add (main w a) = map Add (module_paths w a)"
proof (cases "truthy (backup (config_of w a))")
  case True
  show ?thesis
    by (simp add: main_known_backup [OF assms True] filter_Add)
next
  case False
  show ?thesis
    by (simp add: main_known_plain [OF assms False] filter_Add)
qed

lemma versions_digit_dot_digit:
  assumes "\<forall>n\<in>set listing. version_regex n \<longrightarrow> digit_dot_digit n"
  shows "versions listing = filter version_regex listing"
proof -
  have "map (\<lambda>n. toFixed1 (parseFloat_str n)) (filter version_regex listing) =
        map (\<lambda>n. n) (filter version_regex listing)"
    using assms by (intro map_cong refl) (simp add: roundtrip)
  then show ?thesis
    by (simp add: versions_def versionsArray_def versions_listed_def comp_def)
qed

lemma versions_1_1_1_0: "versions [str ''1.1'', str ''1.0''] = [str ''1.1'', str ''1.0'']"
  by (simp add: versions_def versionsArray_def versions_listed_def regex_samples parse_1_0
      parse_1_1 toFixed1_1 toFixed1_1_1)

text \<open>
  C4, as stated: the units are to reach the runner in ascending numeric order whatever
  the order of the listing. A directory listed as \<^verbatim>\<open>1.1\<close>, \<^verbatim>\<open>1.0\<close> gives the versions in that
  order, which is not ascending.
\<close>

theorem listing_order_kept:
  "versions [str ''1.1'', str ''1.0''] = [str ''1.1'', str ''1.0'']
   \<and> \<not> ascending_unique (versions [str ''1.1'', str ''1.0''])"
  by (simp add: versions_1_1_1_0 ascending_unique_def parse_1_0 parse_1_1)

text \<open>
  C4, amended. The script does not sort: when the accepted entries are named digit, dot,
  digit, the versions are the accepted entries in the order of the listing, the units are
  passed to \<^verbatim>\<open>migrator.add\<close> in that order, and no version occurs twice when no entry does.
\<close>

theorem units_in_listing_order:
  assumes "\<forall>n\<in>set (readdirSync w). version_regex n \<longrightarrow> digit_dot_digit n"
  shows "versions (readdirSync w) = filter version_regex (readdirSync w)
         \<and> (argv_command a = JStr (str ''migrate'') \<and> \<not> unknown_version w a \<longrightarrow>
              filter is_Add (main w a) =
                map (\<lambda>n. Add (migrationsDir (config_of w a) @ str ''/'' @ n))
                  (filter version_regex (readdirSync w)))
         \<and> (distinct (readdirSync w) \<longrightarrow> distinct (versions (readdirSync w)))"
  using versions_digit_dot_digit [OF assms]
  by (simp add: add_calls module_paths_def comp_def)

lemma digit_dot_digit_samples:
  "digit_dot_digit (str ''1.0'')" "digit_dot_digit (str ''1.1'')"
  by (simp_all add: string_eval)

text \<open>The listing \<^verbatim>\<open>1.1\<close>, \<^verbatim>\<open>README.md\<close>, \<^verbatim>\<open>1.0\<close> and the target \<open>1\<close>.\<close>

theorem units_in_listing_order_witness:
  "list_all (\<lambda>n. \<not> version_regex n \<or> digit_dot_digit n) [str ''1.1'', str ''README.md'', str ''1.0'']
   \<and> argv_command (sample_argv (JNum (Fin 1))) = JStr (str ''migrate'')
   \<and> \<not> unknown_version (sample_env [str ''1.1'', str ''README.md'', str ''1.0''])
         (sample_argv (JNum (Fin 1)))
   \<and> versions [str ''1.1'', str ''README.md'', str ''1.0''] = [str ''1.1'', str ''1.0'']
   \<and> filter is_Add (main (sample_env [str ''1.1'', str ''README.md'', str ''1.0''])
         (sample_argv (JNum (Fin 1)))) =
       [Add (str ''/w/migrations/1.1''), Add (str ''/w/migrations/1.0'')]"
proof -
  let ?l = "[str ''1.1'', str ''README.md'', str ''1.0'']"
  let ?w = "sample_env ?l"
  let ?a = "sample_argv (JNum (Fin 1))"
  have names: "\<forall>n\<in>set (readdirSync ?w). version_regex n \<longrightarrow> digit_dot_digit n"
    by (simp add: sample_fields regex_samples digit_dot_digit_samples)
  have known: "\<not> unknown_version ?w ?a"
    by (simp add: unknown_version_def sample_fields versionsArray_def versions_listed_def
        regex_samples parse_1_0 parse_1_1 parse_num_1 num_eq_def)
  from units_in_listing_order [OF names, of ?a] known
  have "versions ?l = [str ''1.1'', str ''1.0'']"
    and "filter is_Add (main ?w ?a) =
       [Add (str ''/w/migrations/1.1''), Add (str ''/w/migrations/1.0'')]"
    by (simp_all add: sample_fields sample_command regex_samples sample_dirs str_append)
  then show ?thesis
    using known by (simp add: sample_command regex_samples digit_dot_digit_samples)
qed

lemma sample_paths_0:
  "module_paths (sample_env [str ''0.0'']) (sample_argv t) = [str ''/w/migrations/0.0'']"
  by (simp add: module_paths_def sample_dirs sample_fields versions_def versionsArray_def
      versions_listed_def regex_samples parse_0_0 toFixed1_0 str_append)

text \<open>
  C7, as stated: every accepted version is to be strictly positive, so that \<^verbatim>\<open>0.0\<close> is never
  registered. The entry \<^verbatim>\<open>0.0\<close> passes the filter, has the value \<open>0\<close>, and its module is
  passed to \<^verbatim>\<open>migrator.add\<close>.
\<close>

theorem zero_is_registered:
  "\<not> list_all strictly_positive (versionsArray [str ''0.0''])
   \<and> versions [str ''0.0''] = [str ''0.0'']
   \<and> filter is_Add (main (sample_env [str ''0.0'']) (sample_argv (JNum (Fin 0)))) =
       [Add (str ''/w/migrations/0.0'')]"
proof -
  have known: "\<not> unknown_version (sample_env [str ''0.0'']) (sample_argv (JNum (Fin 0)))"
    by (simp add: unknown_version_def sample_fields strict_eq_def num_eq_def)
  show ?thesis
    by (simp add: add_calls [OF sample_command known] sample_paths_0 versions_def
        versionsArray_def versions_listed_def regex_samples parse_0_0 toFixed1_0)
qed

text \<open>
  C7, amended. Every version accepted by discovery is a finite number that is not
  negative, and the name under which its module is required is a decimal numeral with
  exactly one fraction digit.
\<close>

theorem accepted_versions_non_negative:
  "list_all finite_non_negative (versionsArray listing)
   \<and> list_all one_fraction_digit (versions listing)"
proof -
  have "finite_non_negative (parseFloat_str n) \<and> one_fraction_digit (toFixed1 (parseFloat_str n))"
    if "version_regex n" for n
  proof -
    from accepted_value [OF that] obtain y
      where y: "parseFloat_str n = Fin y" "0 \<le> y" "y < 10 ^ 21"
      by blast
    then have "\<bar>y\<bar> < 10 ^ 21"
      by simp
    from toFixed1_format [OF this] y show ?thesis
      by simp
  qed
  then show ?thesis
    by (simp add: versions_def versionsArray_def versions_listed_def list_all_iff)
qed

end
